theory Spec2Isabelle
  imports Main "HOL-Library.AList" "HOL-Library.Sublist"
begin

section \<open>Terminal environment utilities: data model\<close>

text \<open>
  The module under study (\<^verbatim>\<open>src/unnamed/part_000\<close>) builds the environment and the working
  directory of a terminal process.  Strings are \<^typ>\<open>string\<close>; a value stored in an environment
  mapping is a string, \<^verbatim>\<open>null\<close> or \<^verbatim>\<open>undefined\<close>.  A JavaScript object used as a mapping is
  a plain object (its prototype is \<^verbatim>\<open>Object.prototype\<close>, as for the \<^verbatim>\<open>{}\<close> the module
  creates), modelled as the association list of its own properties in enumeration order
  (insertion order; environment variable names are not array indices), with at most one
  entry per key.
\<close>

datatype envval = Str string | Null | Undefined

type_synonym obj = "(string \<times> envval) list"

text \<open>\<^verbatim>\<open>Object.keys(o)\<close> and the order of \<^verbatim>\<open>for (k in o)\<close>.\<close>
definition obj_keys :: "obj \<Rightarrow> string list" where
  "obj_keys ob = map fst ob"

text \<open>
  \<^verbatim>\<open>o[key]\<close>: a missing property reads as \<^verbatim>\<open>undefined\<close>.  The module reads an object at its
  own keys and at \<^verbatim>\<open>LANG\<close> only, so the inherited \<^verbatim>\<open>__proto__\<close> getter is never reached.
\<close>
definition obj_get :: "obj \<Rightarrow> string \<Rightarrow> envval" where
  "obj_get ob key = (case map_of ob key of None \<Rightarrow> Undefined | Some v \<Rightarrow> v)"

text \<open>
  \<^verbatim>\<open>o[key] = value\<close>, for the strings the module stores: an existing property keeps its
  place, a new one goes last.  The key \<^verbatim>\<open>__proto__\<close> is special on a plain object: unless
  it is an own property already, the assignment reaches the setter inherited from
  \<^verbatim>\<open>Object.prototype\<close>, which ignores a string, and nothing is stored.
\<close>
definition obj_set :: "obj \<Rightarrow> string \<Rightarrow> envval \<Rightarrow> obj" where
  "obj_set ob key v =
     (if key = ''__proto__'' \<and> key \<notin> set (obj_keys ob) then ob
      else AList.update key v ob)"

text \<open>\<^verbatim>\<open>delete o[key]\<close>.\<close>
definition obj_delete :: "obj \<Rightarrow> string \<Rightarrow> obj" where
  "obj_delete ob key = AList.delete key ob"

text \<open>\<^verbatim>\<open>typeof v === 'string'\<close> and JavaScript truthiness of a \<^verbatim>\<open>string | null | undefined\<close>.\<close>
fun isString :: "envval \<Rightarrow> bool" where
  "isString (Str s) = True"
| "isString Null = False"
| "isString Undefined = False"

fun truthy :: "envval \<Rightarrow> bool" where
  "truthy (Str s) = (s \<noteq> [])"
| "truthy Null = False"
| "truthy Undefined = False"

text \<open>Truthiness of an optional string (\<^verbatim>\<open>string | undefined\<close>).\<close>
fun truthy_str :: "string option \<Rightarrow> bool" where
  "truthy_str None = False"
| "truthy_str (Some s) = (s \<noteq> [])"

datatype OperatingSystem = Windows | Macintosh | Linux

datatype DetectLocale = Auto | Off | On

datatype error = Thrown string

text \<open>A variable resolver maps a string to a string and may throw (\<open>Inl\<close>).\<close>
type_synonym VariableResolver = "string \<Rightarrow> error + string"

text \<open>The log service, as the list of the \<^verbatim>\<open>error(message, e)\<close> calls it has received.\<close>
type_synonym ILogService = "(string \<times> error) list"

record Uri =
  fsPath :: string

datatype cwdval = CwdStr string | CwdUri Uri

text \<open>
  Caller-supplied mappings live in a store, so that mutation in place and aliasing are
  visible: an address is an index into the list of objects.
\<close>
type_synonym addr = nat
type_synonym heap = "obj list"

record IShellLaunchConfig =
  slc_cwd :: "cwdval option"
  slc_env :: "addr option"
  slc_strictEnv :: bool
  slc_ignoreConfigurationCwd :: bool

text \<open>
  What the module imports from outside \<^verbatim>\<open>src/\<close> is a parameter: the platform facts of
  \<^verbatim>\<open>vs/base/common/platform\<close>, the path primitives of \<^verbatim>\<open>vs/base/common/path\<close>, the process
  facts, \<^verbatim>\<open>getCaseInsensitive\<close>, the default existence check, the case mappings of
  \<^verbatim>\<open>String.prototype\<close>, and the set of keys \<^verbatim>\<open>sanitizeProcessEnvironment\<close> strips.
\<close>
record host =
  isWindows :: bool
  OS :: OperatingSystem
  platform_locale :: "string option"
  toLowerCase :: "string \<Rightarrow> string"
  toUpperCase :: "string \<Rightarrow> string"
  isAbsolute :: "string \<Rightarrow> bool"
  dirname :: "string \<Rightarrow> string"
  join :: "string list \<Rightarrow> string"
  delimiter :: char
  process_cwd :: string
  process_env :: obj
  pfs_exists :: "string \<Rightarrow> bool"
  getCaseInsensitive :: "obj \<Rightarrow> string \<Rightarrow> envval"
  undesirable :: "string list \<Rightarrow> string \<Rightarrow> bool"

section \<open>String primitives\<close>

text \<open>\<^verbatim>\<open>s.split(c)\<close> for a one-character separator: never the empty list.\<close>
fun split_on :: "char \<Rightarrow> string \<Rightarrow> string list" where
  "split_on c [] = [[]]"
| "split_on c (x # xs) =
     (if x = c then [] # split_on c xs
      else (case split_on c xs of [] \<Rightarrow> [[x]] | p # ps \<Rightarrow> (x # p) # ps))"

text \<open>\<^verbatim>\<open>parts.join(sep)\<close>.\<close>
fun join_with :: "string \<Rightarrow> string list \<Rightarrow> string" where
  "join_with sep [] = []"
| "join_with sep [p] = p"
| "join_with sep (p # q # ps) = p @ sep @ join_with sep (q # ps)"

subsection \<open>The three regular expressions of \<^verbatim>\<open>shouldSetLangEnvVariable\<close>\<close>

text \<open>
  A pattern is a sequence of items: a literal character, \<^verbatim>\<open>.\<close> (any character but a line
  terminator), an item under \<^verbatim>\<open>+\<close>, or the anchor \<^verbatim>\<open>$\<close> (end of input, no multiline flag).
  \<open>search\<close> is \<^verbatim>\<open>String.prototype.search\<close>: the index of the first match, or \<open>-1\<close>.
\<close>
datatype atom = Ch char | Dot

datatype item = One atom | Plus atom | End

fun atom_ok :: "atom \<Rightarrow> char \<Rightarrow> bool" where
  "atom_ok (Ch a) c = (a = c)"
| "atom_ok Dot c = (c \<noteq> CHR 0x0A \<and> c \<noteq> CHR 0x0D)"

fun matchhere :: "item list \<Rightarrow> string \<Rightarrow> bool" where
  "matchhere [] s = True"
| "matchhere (End # r) s = (s = [] \<and> matchhere r s)"
| "matchhere (One a # r) [] = False"
| "matchhere (One a # r) (c # s) = (atom_ok a c \<and> matchhere r s)"
| "matchhere (Plus a # r) [] = False"
| "matchhere (Plus a # r) (c # s) =
     (atom_ok a c \<and> (matchhere (Plus a # r) s \<or> matchhere r s))"

fun search_from :: "item list \<Rightarrow> int \<Rightarrow> string \<Rightarrow> int" where
  "search_from re i [] = (if matchhere re [] then i else - 1)"
| "search_from re i (c # s) =
     (if matchhere re (c # s) then i else search_from re (i + 1) s)"

definition search :: "string \<Rightarrow> item list \<Rightarrow> int" where
  "search s re = search_from re 0 s"

text \<open>\<^verbatim>\<open>/\.UTF\-8$/\<close>, \<^verbatim>\<open>/\.utf8$/\<close> and \<^verbatim>\<open>/\.euc.+/\<close>.\<close>
definition re_UTF8 :: "item list" where
  "re_UTF8 = map (One \<circ> Ch) ''.UTF-8'' @ [End]"

definition re_utf8 :: "item list" where
  "re_utf8 = map (One \<circ> Ch) ''.utf8'' @ [End]"

definition re_euc :: "item list" where
  "re_euc = map (One \<circ> Ch) ''.euc'' @ [Plus Dot]"

section \<open>Locale derivation\<close>

definition shouldSetLangEnvVariable :: "obj \<Rightarrow> DetectLocale \<Rightarrow> bool" where
  "shouldSetLangEnvVariable env detectLocale =
     (if detectLocale = On then True
      else if detectLocale = Auto then
        (let lang = obj_get env ''LANG'' in
         (case lang of
            Str l \<Rightarrow> l = [] \<or>
              (search l re_UTF8 = - 1 \<and> search l re_utf8 = - 1 \<and> search l re_euc = - 1)
          | Null \<Rightarrow> True
          | Undefined \<Rightarrow> True))
      else False)"

definition languageVariants :: "(string \<times> string) list" where
  "languageVariants =
     [(''af'', ''ZA''), (''am'', ''ET''), (''be'', ''BY''), (''bg'', ''BG''), (''ca'', ''ES''),
      (''cs'', ''CZ''), (''da'', ''DK''), (''de'', ''DE''), (''el'', ''GR''), (''en'', ''US''),
      (''es'', ''ES''), (''et'', ''EE''), (''eu'', ''ES''), (''fi'', ''FI''), (''fr'', ''FR''),
      (''he'', ''IL''), (''hr'', ''HR''), (''hu'', ''HU''), (''hy'', ''AM''), (''is'', ''IS''),
      (''it'', ''IT''), (''ja'', ''JP''), (''kk'', ''KZ''), (''ko'', ''KR''), (''lt'', ''LT''),
      (''nl'', ''NL''), (''no'', ''NO''), (''pl'', ''PL''), (''pt'', ''BR''), (''ro'', ''RO''),
      (''ru'', ''RU''), (''sk'', ''SK''), (''sl'', ''SI''), (''sr'', ''YU''), (''sv'', ''SE''),
      (''tr'', ''TR''), (''uk'', ''UA''), (''zh'', ''CN'')]"

text \<open>
  The \<^verbatim>\<open>in\<close> test of the one-segment branch is modelled on the table's own keys (names
  inherited from \<^verbatim>\<open>Object.prototype\<close> are not locale tags).
\<close>
definition getLangEnvVariable :: "host \<Rightarrow> string option \<Rightarrow> string" where
  "getLangEnvVariable H locale =
     (let parts = (if truthy_str locale then split_on CHR ''-'' (the locale) else []);
          n = length parts
      in if n = 0 then ''en_US.UTF-8''
         else
           (let parts =
                  (if n = 1 then
                     (case map_of languageVariants (parts ! 0) of
                        Some region \<Rightarrow> parts @ [region]
                      | None \<Rightarrow> parts)
                   else parts[1 := toUpperCase H (parts ! 1)])
            in join_with ''_'' parts @ ''.UTF-8''))"

section \<open>Merging environments\<close>

fun mergeEnvironmentValue :: "obj \<Rightarrow> string \<Rightarrow> envval \<Rightarrow> obj" where
  "mergeEnvironmentValue env key (Str s) = obj_set env key (Str s)"
| "mergeEnvironmentValue env key Null = obj_delete env key"
| "mergeEnvironmentValue env key Undefined = obj_delete env key"

text \<open>
  The inner loop of the Windows branch: the first key of \<open>parent\<close> equal to \<open>configKey\<close>
  up to case, else \<open>configKey\<close> itself.
\<close>
definition actualKey :: "host \<Rightarrow> obj \<Rightarrow> string \<Rightarrow> string" where
  "actualKey H parent configKey =
     (case List.find (\<lambda>envKey. toLowerCase H configKey = toLowerCase H envKey) (obj_keys parent) of
        Some envKey \<Rightarrow> envKey
      | None \<Rightarrow> configKey)"

text \<open>
  \<open>parent\<close> and \<open>other\<close> are distinct objects (in \<open>createTerminalEnvironment\<close> the parent
  is always the freshly created environment); the new \<open>parent\<close> is returned.
\<close>
definition mergeEnvironments :: "host \<Rightarrow> obj \<Rightarrow> obj option \<Rightarrow> obj" where
  "mergeEnvironments H parent other =
     (case other of
        None \<Rightarrow> parent
      | Some other \<Rightarrow>
          if isWindows H then
            fold (\<lambda>configKey parent.
                    (let key = actualKey H parent configKey;
                         v = obj_get other configKey
                     in if v \<noteq> Undefined then mergeEnvironmentValue parent key v else parent))
                 (obj_keys other) parent
          else
            fold (\<lambda>key parent.
                    (let v = obj_get other key
                     in if v \<noteq> Undefined then mergeEnvironmentValue parent key v else parent))
                 (obj_keys other) parent)"

definition mergeNonNullKeys :: "obj \<Rightarrow> obj option \<Rightarrow> obj" where
  "mergeNonNullKeys env other =
     (case other of
        None \<Rightarrow> env
      | Some other \<Rightarrow>
          fold (\<lambda>key env.
                  (let v = obj_get other key
                   in if truthy v then obj_set env key v else env))
               (obj_keys other) env)"

text \<open>The \<^verbatim>\<open>try\<close>/\<^verbatim>\<open>catch\<close> keeps the old value when the resolver throws.\<close>
definition resolveConfigurationVariables :: "VariableResolver \<Rightarrow> obj \<Rightarrow> obj" where
  "resolveConfigurationVariables variableResolver env =
     fold (\<lambda>key env.
             (case obj_get env key of
                Str s \<Rightarrow>
                  (case variableResolver s of
                     Inr r \<Rightarrow> obj_set env key (Str r)
                   | Inl e \<Rightarrow> obj_set env key (Str s))
              | Null \<Rightarrow> env
              | Undefined \<Rightarrow> env))
          (obj_keys env) env"

section \<open>Building the terminal environment\<close>

text \<open>
  Modelled from the spec: \<^verbatim>\<open>sanitizeProcessEnvironment\<close> is imported from
  \<^verbatim>\<open>vs/base/common/processes\<close>, which is not among the sources.  The spec says it removes
  ``a fixed set of undesirable inherited keys'' from the working copy; which keys these are,
  given the names passed in the call, is the host's \<open>undesirable\<close>.
\<close>
definition sanitizeProcessEnvironment :: "host \<Rightarrow> obj \<Rightarrow> string list \<Rightarrow> obj" where
  "sanitizeProcessEnvironment H env names = filter (\<lambda>(k, v). \<not> undesirable H names k) env"

definition addTerminalEnvironmentKeys ::
  "host \<Rightarrow> obj \<Rightarrow> string option \<Rightarrow> string option \<Rightarrow> DetectLocale \<Rightarrow> obj" where
  "addTerminalEnvironmentKeys H env version locale detectLocale =
     (let env = obj_set env ''TERM_PROGRAM'' (Str ''vscode'');
          env = (if truthy_str version
                 then obj_set env ''TERM_PROGRAM_VERSION'' (Str (the version)) else env);
          env = (if shouldSetLangEnvVariable env detectLocale
                 then obj_set env ''LANG'' (Str (getLangEnvVariable H locale)) else env)
      in obj_set env ''COLORTERM'' (Str ''truecolor''))"

text \<open>
  The launch config's overlay, the configured overlay and the base environment are
  caller-owned objects of the store \<open>h\<close> (valid addresses: below \<open>length h\<close>).  The
  function returns the freshly built environment and the store it leaves behind.
  \<open>allowedEnvFromConfig\<close> is the spread copy \<^verbatim>\<open>{ ...envFromConfig }\<close>, a new object.
\<close>
definition createTerminalEnvironment ::
  "host \<Rightarrow> IShellLaunchConfig \<Rightarrow> addr option \<Rightarrow> VariableResolver option \<Rightarrow> string option
     \<Rightarrow> DetectLocale \<Rightarrow> addr \<Rightarrow> heap \<Rightarrow> obj \<times> heap" where
  "createTerminalEnvironment H shellLaunchConfig envFromConfig variableResolver version
       detectLocale baseEnv h =
     (let env = [] in
      if slc_strictEnv shellLaunchConfig then
        (mergeNonNullKeys env (map_option (\<lambda>a. h ! a) (slc_env shellLaunchConfig)), h)
      else
        (let env = mergeNonNullKeys env (Some (h ! baseEnv));
             allowedEnvFromConfig = (case envFromConfig of None \<Rightarrow> [] | Some a \<Rightarrow> h ! a);
             allowedEnvFromConfig =
               (case variableResolver of
                  None \<Rightarrow> allowedEnvFromConfig
                | Some r \<Rightarrow> resolveConfigurationVariables r allowedEnvFromConfig);
             h = (case variableResolver of
                    None \<Rightarrow> h
                  | Some r \<Rightarrow>
                      (case slc_env shellLaunchConfig of
                         None \<Rightarrow> h
                       | Some a \<Rightarrow> h[a := resolveConfigurationVariables r (h ! a)]));
             env = sanitizeProcessEnvironment H env [''VSCODE_IPC_HOOK_CLI''];
             env = mergeEnvironments H env (Some allowedEnvFromConfig);
             env = mergeEnvironments H env (map_option (\<lambda>a. h ! a) (slc_env shellLaunchConfig));
             env = addTerminalEnvironmentKeys H env version (platform_locale H) detectLocale
         in (env, h)))"

section \<open>Working directory\<close>

text \<open>The result and the log service after the call; a thrown error is caught and logged.\<close>
definition resolveCwd ::
  "string \<Rightarrow> VariableResolver option \<Rightarrow> ILogService option
     \<Rightarrow> string option \<times> ILogService option" where
  "resolveCwd cwd variableResolver logService =
     (case variableResolver of
        Some r \<Rightarrow>
          (case r cwd of
             Inr v \<Rightarrow> (Some v, logService)
           | Inl e \<Rightarrow>
               (None, map_option (\<lambda>l. l @ [(''Could not resolve terminal cwd'', e)]) logService))
      | None \<Rightarrow> (Some cwd, logService))"

definition sanitizeCwd :: "host \<Rightarrow> string \<Rightarrow> string" where
  "sanitizeCwd H cwd =
     (if OS H = Windows \<and> cwd \<noteq> [] \<and> 1 < length cwd \<and> cwd ! 1 = CHR '':''
      then toUpperCase H [cwd ! 0] @ drop 1 cwd
      else cwd)"

text \<open>\<^verbatim>\<open>shell.cwd\<close> is truthy when it is a non-empty string or a \<^verbatim>\<open>Uri\<close> object.\<close>
fun cwd_truthy :: "cwdval option \<Rightarrow> bool" where
  "cwd_truthy None = False"
| "cwd_truthy (Some (CwdStr s)) = (s \<noteq> [])"
| "cwd_truthy (Some (CwdUri u)) = True"

fun cwd_string :: "cwdval option \<Rightarrow> string" where
  "cwd_string (Some (CwdUri u)) = fsPath u"
| "cwd_string (Some (CwdStr s)) = s"
| "cwd_string None = []"

definition getCwd ::
  "host \<Rightarrow> IShellLaunchConfig \<Rightarrow> string option \<Rightarrow> VariableResolver option \<Rightarrow> Uri option
     \<Rightarrow> string option \<Rightarrow> ILogService option \<Rightarrow> string \<times> ILogService option" where
  "getCwd H shell userHome variableResolver root customCwd logService =
     (if cwd_truthy (slc_cwd shell) then
        (let unresolved = cwd_string (slc_cwd shell);
             resolved = fst (resolveCwd unresolved variableResolver None)
         in (sanitizeCwd H (if truthy_str resolved then the resolved else unresolved), logService))
      else
        (let (customCwd', logService) =
               (if \<not> slc_ignoreConfigurationCwd shell \<and> truthy_str customCwd \<and> variableResolver \<noteq> None
                then resolveCwd (the customCwd) variableResolver logService
                else (customCwd, logService));
             cwd =
               (if \<not> slc_ignoreConfigurationCwd shell \<and> truthy_str customCwd \<and> truthy_str customCwd'
                then (if isAbsolute H (the customCwd') then customCwd'
                      else (case root of
                              Some r \<Rightarrow> Some (join H [fsPath r, the customCwd'])
                            | None \<Rightarrow> None))
                else None);
             cwd = (if \<not> truthy_str cwd
                    then (case root of
                            Some r \<Rightarrow> fsPath r
                          | None \<Rightarrow> (if truthy_str userHome then the userHome else []))
                    else the cwd)
         in (sanitizeCwd H cwd, logService)))"

section \<open>Finding an executable\<close>

text \<open>
  The existence check is a predicate on paths: the file system does not change during one
  call.  The loop over the search path, with the two extra probes on Windows.
\<close>
fun probe_paths ::
  "host \<Rightarrow> (string \<Rightarrow> bool) \<Rightarrow> string \<Rightarrow> string \<Rightarrow> string list \<Rightarrow> string option" where
  "probe_paths H exists cwd command [] = None"
| "probe_paths H exists cwd command (pathEntry # rest) =
     (let fullPath = (if isAbsolute H pathEntry then join H [pathEntry, command]
                      else join H [cwd, pathEntry, command])
      in if exists fullPath then Some fullPath
         else if isWindows H then
           (let withExtension = fullPath @ ''.com''
            in if exists withExtension then Some withExtension
               else (let withExtension = fullPath @ ''.exe''
                     in if exists withExtension then Some withExtension
                        else probe_paths H exists cwd command rest))
         else probe_paths H exists cwd command rest)"

definition findExecutable ::
  "host \<Rightarrow> string \<Rightarrow> string option \<Rightarrow> string list option \<Rightarrow> obj option
     \<Rightarrow> (string \<Rightarrow> bool) option \<Rightarrow> string option" where
  "findExecutable H command cwd paths env exists =
     (let env = (case env of None \<Rightarrow> process_env H | Some e \<Rightarrow> e);
          exists = (case exists of None \<Rightarrow> pfs_exists H | Some f \<Rightarrow> f)
      in if isAbsolute H command then (if exists command then Some command else None)
         else
           (let cwd = (case cwd of None \<Rightarrow> process_cwd H | Some c \<Rightarrow> c);
                dir = dirname H command
            in if dir \<noteq> ''.'' then
                 (let fullPath = join H [cwd, command]
                  in if exists fullPath then Some fullPath else None)
               else
                 (let envPath = getCaseInsensitive H env ''PATH'';
                      paths = (case (paths, envPath) of
                                 (None, Str p) \<Rightarrow> Some (split_on (delimiter H) p)
                               | _ \<Rightarrow> paths)
                  in if paths = None \<or> paths = Some [] then
                       (let fullPath = join H [cwd, command]
                        in if exists fullPath then Some fullPath else None)
                     else
                       (case probe_paths H exists cwd command (the paths) of
                          Some found \<Rightarrow> Some found
                        | None \<Rightarrow>
                            (let fullPath = join H [cwd, command]
                             in if exists fullPath then Some fullPath else None)))))"

subsection \<open>The loop body of \<open>mergeEnvironments\<close>\<close>

text \<open>The body of the loop over the overlay's keys, and its effect for one entry.\<close>
definition merge_step :: "host \<Rightarrow> obj \<Rightarrow> string \<Rightarrow> obj \<Rightarrow> obj" where
  "merge_step H other configKey parent =
     (let key = (if isWindows H then actualKey H parent configKey else configKey);
          v = obj_get other configKey
      in if v \<noteq> Undefined then mergeEnvironmentValue parent key v else parent)"


section \<open>The documented probe order\<close>

text \<open>
  The search of the specification (4.1), written as the list of candidates in the order they
  are to be probed: the search list is the explicit \<open>paths\<close>, else the split of the
  \<^verbatim>\<open>PATH\<close> variable, else empty; every entry gives one candidate, on Windows followed by
  its \<^verbatim>\<open>.com\<close> and \<^verbatim>\<open>.exe\<close> forms; the last candidate is \<open>cwd\<close> joined with the command.
\<close>
definition search_list :: "host \<Rightarrow> string list option \<Rightarrow> obj \<Rightarrow> string list" where
  "search_list H paths env =
     (case paths of
        Some ps \<Rightarrow> ps
      | None \<Rightarrow>
          (case getCaseInsensitive H env ''PATH'' of
             Str p \<Rightarrow> split_on (delimiter H) p
           | Null \<Rightarrow> []
           | Undefined \<Rightarrow> []))"

definition entry_candidates :: "host \<Rightarrow> string \<Rightarrow> string \<Rightarrow> string \<Rightarrow> string list" where
  "entry_candidates H cwd command pathEntry =
     (let fullPath = (if isAbsolute H pathEntry then join H [pathEntry, command]
                      else join H [cwd, pathEntry, command])
      in if isWindows H then [fullPath, fullPath @ ''.com'', fullPath @ ''.exe'']
         else [fullPath])"

definition candidates ::
  "host \<Rightarrow> string \<Rightarrow> string \<Rightarrow> string list option \<Rightarrow> obj \<Rightarrow> string list" where
  "candidates H command cwd paths env =
     (if isAbsolute H command then [command]
      else if dirname H command \<noteq> ''.'' then [join H [cwd, command]]
      else concat (map (entry_candidates H cwd command) (search_list H paths env))
             @ [join H [cwd, command]])"

section \<open>Example hosts\<close>

text \<open>
  Two concrete hosts for the worked examples: ASCII case mappings, \<^verbatim>\<open>/\<close>-separated paths
  (absolute when they start with \<^verbatim>\<open>/\<close>, a directory part when they contain one), own-key
  lookup of \<^verbatim>\<open>PATH\<close>, and a sanitizer that strips the keys starting with \<^verbatim>\<open>ELECTRON_\<close>.
\<close>
definition ascii_upper :: "string \<Rightarrow> string" where
  "ascii_upper =
     map (\<lambda>c. case map_of (zip ''abcdefghijklmnopqrstuvwxyz'' ''ABCDEFGHIJKLMNOPQRSTUVWXYZ'') c of
                 None \<Rightarrow> c | Some u \<Rightarrow> u)"

definition ascii_lower :: "string \<Rightarrow> string" where
  "ascii_lower =
     map (\<lambda>c. case map_of (zip ''ABCDEFGHIJKLMNOPQRSTUVWXYZ'' ''abcdefghijklmnopqrstuvwxyz'') c of
                 None \<Rightarrow> c | Some l \<Rightarrow> l)"

definition example_host :: "bool \<Rightarrow> host" where
  "example_host win =
     \<lparr>isWindows = win, OS = (if win then Windows else Linux),
      platform_locale = Some ''en-us'',
      toLowerCase = ascii_lower, toUpperCase = ascii_upper,
      isAbsolute = (\<lambda>p. take 1 p = ''/''),
      dirname = (\<lambda>p. if CHR ''/'' \<in> set p then ''dir'' else ''.''),
      join = join_with ''/'', delimiter = CHR '':'',
      process_cwd = ''/home'', process_env = [],
      pfs_exists = (\<lambda>p. False), getCaseInsensitive = obj_get,
      undesirable = (\<lambda>names k. take 9 k = ''ELECTRON_'')\<rparr>"

section \<open>Specification-level notions and worked-example data\<close>

text \<open>
  What resolving does to one value, in the specification's words: a string becomes its
  resolution, or stays as it is when the resolver throws; any other value passes through.
\<close>
definition resolved_value :: "VariableResolver \<Rightarrow> envval \<Rightarrow> envval" where
  "resolved_value r v =
     (case v of
        Str s \<Rightarrow> (case r s of Inr t \<Rightarrow> Str t | Inl e \<Rightarrow> Str s)
      | Null \<Rightarrow> Null
      | Undefined \<Rightarrow> Undefined)"

text \<open>Every value stored in the mapping is a string.\<close>
definition only_strings :: "obj \<Rightarrow> bool" where
  "only_strings ob = (\<forall>(k, v) \<in> set ob. isString v)"

text \<open>The fallback of the last step: the workspace root, else the user home, else empty.\<close>
definition fallback_cwd :: "Uri option \<Rightarrow> string option \<Rightarrow> string" where
  "fallback_cwd root userHome =
     (case root of
        Some r \<Rightarrow> fsPath r
      | None \<Rightarrow> (if truthy_str userHome then the userHome else []))"

text \<open>
  The configured cwd that applies: none when the launch config opts out or none is
  configured; else the configured string, resolved when there is a resolver (none when it
  throws).
\<close>
definition configured_cwd ::
  "IShellLaunchConfig \<Rightarrow> VariableResolver option \<Rightarrow> string option \<Rightarrow> string option" where
  "configured_cwd shell variableResolver customCwd =
     (if slc_ignoreConfigurationCwd shell \<or> \<not> truthy_str customCwd then None
      else (case variableResolver of
              None \<Rightarrow> customCwd
            | Some r \<Rightarrow> (case r (the customCwd) of Inr v \<Rightarrow> Some v | Inl e \<Rightarrow> None)))"

definition example_resolver :: VariableResolver where
  "example_resolver s =
     (if s = ''${bad}'' then Inl (Thrown ''unknown variable'') else Inr (s @ ''!''))"

definition example_launch :: IShellLaunchConfig where
  "example_launch =
     \<lparr>slc_cwd = None, slc_env = Some 0, slc_strictEnv = False,
      slc_ignoreConfigurationCwd = False\<rparr>"

definition example_heap :: heap where
  "example_heap =
     [[(''A'', Str ''a''), (''B'', Null), (''D'', Str ''${bad}'')],
      [(''C'', Str ''c'')],
      [(''HOME'', Str ''/root''), (''B'', Str ''b''), (''E'', Str '''')]]"

definition example_shell :: "cwdval option \<Rightarrow> IShellLaunchConfig" where
  "example_shell c =
     \<lparr>slc_cwd = c, slc_env = None, slc_strictEnv = False, slc_ignoreConfigurationCwd = False\<rparr>"

section \<open>Locale derivation: properties\<close>

lemma length_split_on: "0 < length (split_on c s)"
  by (induction s) (auto split: list.splits)

text \<open>
  C4, as the code has it.  For a locale tag with two or more \<^verbatim>\<open>-\<close>-separated segments,
  \<open>getLangEnvVariable\<close> puts the second segment in upper case, joins \<^emph>\<open>all\<close> segments with
  \<^verbatim>\<open>_\<close> and appends \<^verbatim>\<open>.UTF-8\<close>: the segments after the second are kept as they are.
\<close>
theorem getLangEnvVariable_two_or_more_segments:
  assumes "truthy_str locale"
    and "split_on CHR ''-'' (the locale) = lang # region # rest"
  shows "getLangEnvVariable H locale =
           join_with ''_'' (lang # toUpperCase H region # rest) @ ''.UTF-8''"
  using assms by (simp add: getLangEnvVariable_def Let_def)

theorem getLangEnvVariable_two_or_more_segments_witness:
  "truthy_str (Some ''pt-br'')
   \<and> split_on CHR ''-'' ''pt-br'' = [''pt'', ''br'']
   \<and> getLangEnvVariable (example_host False) (Some ''pt-br'') = ''pt_BR.UTF-8''"
  using getLangEnvVariable_two_or_more_segments
          [of "Some ''pt-br''" "''pt''" "''br''" "[]" "example_host False"]
  by (simp add: example_host_def ascii_upper_def)

text \<open>
  C4 as the specification words it (only the first two segments are used, the rest is
  dropped) fails: a third segment is part of the result.
\<close>
theorem getLangEnvVariable_drops_extra_segments_counterexample:
  "split_on CHR ''-'' ''zh-hans-cn'' = [''zh'', ''hans'', ''cn'']
   \<and> getLangEnvVariable (example_host False) (Some ''zh-hans-cn'') = ''zh_HANS_cn.UTF-8''
   \<and> getLangEnvVariable (example_host False) (Some ''zh-hans-cn'')
       \<noteq> ''zh'' @ ''_'' @ toUpperCase (example_host False) ''hans'' @ ''.UTF-8''"
  by (simp add: getLangEnvVariable_def example_host_def ascii_upper_def Let_def)

section \<open>Deciding whether to set \<^verbatim>\<open>LANG\<close>\<close>

lemma matchhere_literal:
  "matchhere (map (One \<circ> Ch) lit @ r) s \<longleftrightarrow> (\<exists>t. s = lit @ t \<and> matchhere r t)"
proof (induction lit arbitrary: s)
  case Nil
  then show ?case by simp
next
  case (Cons a lit)
  then show ?case by (cases s) auto
qed

lemma matchhere_End: "matchhere [End] s \<longleftrightarrow> s = []"
  by simp

lemma matchhere_Plus_Dot: "matchhere [Plus Dot] s \<longleftrightarrow> (\<exists>c t. s = c # t \<and> c \<noteq> CHR 0x0A \<and> c \<noteq> CHR 0x0D)"
  by (cases s) auto

lemma search_from_none:
  "0 \<le> i \<Longrightarrow> search_from re i s = - 1 \<longleftrightarrow> (\<forall>t. suffix t s \<longrightarrow> \<not> matchhere re t)"
proof (induction s arbitrary: i)
  case Nil
  then show ?case by auto
next
  case (Cons c s)
  then show ?case by (auto simp: suffix_Cons)
qed

lemma search_none: "search s re = - 1 \<longleftrightarrow> (\<forall>t. suffix t s \<longrightarrow> \<not> matchhere re t)"
  by (simp add: search_def search_from_none)

lemma search_anchored_literal:
  "search s (map (One \<circ> Ch) lit @ [End]) = - 1 \<longleftrightarrow> \<not> suffix lit s"
  by (auto simp: search_none matchhere_literal)

lemma search_re_euc:
  "search s re_euc = - 1 \<longleftrightarrow>
     \<not> (\<exists>pre c t. s = pre @ ''.euc'' @ c # t \<and> c \<noteq> CHR 0x0A \<and> c \<noteq> CHR 0x0D)"
  unfolding re_euc_def search_none matchhere_literal matchhere_Plus_Dot
  by (auto simp: suffix_def)

text \<open>
  C8.  \<open>shouldSetLangEnvVariable\<close> is true for every environment in mode \<^verbatim>\<open>on\<close> and false
  for every environment in mode \<^verbatim>\<open>off\<close>.  In mode \<^verbatim>\<open>auto\<close> it is true exactly when the
  environment has no \<^verbatim>\<open>LANG\<close> string, or that string neither ends in \<^verbatim>\<open>.UTF-8\<close>, nor ends in
  \<^verbatim>\<open>.utf8\<close>, nor has a euc variant as a suffix (\<^verbatim>\<open>.euc\<close> followed by at least one character
  that is not a line terminator); the comparisons are case sensitive.
\<close>
theorem shouldSetLangEnvVariable_modes:
  "shouldSetLangEnvVariable env On
   \<and> \<not> shouldSetLangEnvVariable env Off
   \<and> (shouldSetLangEnvVariable env Auto \<longleftrightarrow>
        (\<forall>l. obj_get env ''LANG'' = Str l \<longrightarrow>
           \<not> suffix ''.UTF-8'' l \<and> \<not> suffix ''.utf8'' l
           \<and> \<not> (\<exists>pre c t. l = pre @ ''.euc'' @ c # t \<and> c \<noteq> CHR 0x0A \<and> c \<noteq> CHR 0x0D)))"
proof -
  have auto_mode: "shouldSetLangEnvVariable env Auto \<longleftrightarrow>
        (\<forall>l. obj_get env ''LANG'' = Str l \<longrightarrow>
           \<not> suffix ''.UTF-8'' l \<and> \<not> suffix ''.utf8'' l
           \<and> \<not> (\<exists>pre c t. l = pre @ ''.euc'' @ c # t \<and> c \<noteq> CHR 0x0A \<and> c \<noteq> CHR 0x0D))"
  proof (cases "obj_get env ''LANG''")
    case (Str l)
    have "search l re_UTF8 = - 1 \<longleftrightarrow> \<not> suffix ''.UTF-8'' l"
      unfolding re_UTF8_def by (rule search_anchored_literal)
    moreover have "search l re_utf8 = - 1 \<longleftrightarrow> \<not> suffix ''.utf8'' l"
      unfolding re_utf8_def by (rule search_anchored_literal)
    ultimately show ?thesis
      using Str search_re_euc [of l]
      by (cases "l = []") (simp_all add: shouldSetLangEnvVariable_def)
  qed (simp_all add: shouldSetLangEnvVariable_def)
  show ?thesis
    using auto_mode by (simp add: shouldSetLangEnvVariable_def)
qed

theorem shouldSetLangEnvVariable_modes_witness:
  "\<not> shouldSetLangEnvVariable [(''LANG'', Str ''en_US.UTF-8'')] Auto
   \<and> shouldSetLangEnvVariable [] Auto
   \<and> \<not> shouldSetLangEnvVariable [(''LANG'', Str ''en_US.UTF-8'')] Off
   \<and> shouldSetLangEnvVariable [(''LANG'', Str ''en_US.utf-8'')] Auto
   \<and> \<not> shouldSetLangEnvVariable [(''LANG'', Str ''ja_JP.eucJP'')] Auto"
  using shouldSetLangEnvVariable_modes [of "[(''LANG'', Str ''en_US.UTF-8'')]"]
  by (simp add: shouldSetLangEnvVariable_def obj_get_def search_def re_UTF8_def re_utf8_def re_euc_def)

section \<open>Merging environments: properties\<close>



lemma map_of_obj_set_other: "k \<noteq> K \<Longrightarrow> map_of (obj_set p k v) K = map_of p K"
  by (simp add: obj_set_def update_conv')

lemma map_of_obj_delete: "map_of (obj_delete p k) = (map_of p)(k := None)"
  by (simp add: obj_delete_def delete_conv')



lemma actualKey_lower: "toLowerCase H (actualKey H p k) = toLowerCase H k"
  by (auto simp: actualKey_def find_Some_iff split: option.splits)



lemma mergeEnvironments_fold:
  "mergeEnvironments H parent (Some other) = fold (merge_step H other) (obj_keys other) parent"
  by (cases "isWindows H") (simp_all add: mergeEnvironments_def merge_step_def [abs_def] Let_def cong: if_cong)





lemma obj_get_Undefined_if:
  assumes "\<forall>(ck, v) \<in> set other. P ck \<longrightarrow> v = Undefined" and "P ck"
  shows "obj_get other ck = Undefined"
proof (cases "map_of other ck")
  case None
  then show ?thesis by (simp add: obj_get_def)
next
  case (Some v)
  then have "(ck, v) \<in> set other" by (rule map_of_SomeD)
  with assms have "v = Undefined" by auto
  with Some show ?thesis by (simp add: obj_get_def)
qed

lemma map_of_mergeEnvironmentValue_other:
  "key \<noteq> K \<Longrightarrow> map_of (mergeEnvironmentValue p key v) K = map_of p K"
  by (cases v) (simp_all add: map_of_obj_set_other map_of_obj_delete)

lemma merge_step_frame:
  assumes "(if isWindows H then toLowerCase H ck = toLowerCase H K else ck = K)
             \<longrightarrow> obj_get other ck = Undefined"
  shows "map_of (merge_step H other ck p) K = map_of p K"
proof (cases "obj_get other ck = Undefined")
  case True
  then show ?thesis by (simp add: merge_step_def)
next
  case False
  with assms have nomatch: "\<not> (if isWindows H then toLowerCase H ck = toLowerCase H K else ck = K)"
    by blast
  have "(if isWindows H then actualKey H p ck else ck) \<noteq> K"
  proof (cases "isWindows H")
    case True
    with nomatch have "toLowerCase H (actualKey H p ck) \<noteq> toLowerCase H K"
      by (simp add: actualKey_lower)
    with True show ?thesis by auto
  next
    case False
    with nomatch show ?thesis by simp
  qed
  then show ?thesis
    using False by (simp add: merge_step_def Let_def map_of_mergeEnvironmentValue_other)
qed

lemma fold_merge_step_frame:
  assumes "\<forall>ck \<in> set ks. (if isWindows H then toLowerCase H ck = toLowerCase H K else ck = K)
             \<longrightarrow> obj_get other ck = Undefined"
  shows "map_of (fold (merge_step H other) ks p) K = map_of p K"
  using assms
proof (induction ks arbitrary: p)
  case Nil
  then show ?case by simp
next
  case (Cons ck ks)
  then show ?case by (simp add: merge_step_frame)
qed

lemma fold_merge_step_all_undefined:
  assumes "\<forall>ck \<in> set ks. obj_get other ck = Undefined"
  shows "fold (merge_step H other) ks p = p"
  using assms by (induction ks arbitrary: p) (simp_all add: merge_step_def)

text \<open>
  C10.  An \<^verbatim>\<open>undefined\<close> overlay value neither overwrites nor deletes: an overlay with only
  such values leaves the parent as it is, and the entry of a key \<open>K\<close> is unchanged by a
  merge whenever every overlay key that matches \<open>K\<close> (up to case on Windows, exactly
  elsewhere) carries \<^verbatim>\<open>undefined\<close>; in particular when no overlay key matches \<open>K\<close>.
\<close>
theorem mergeEnvironments_undefined_and_unmatched_untouched:
  "mergeEnvironments H parent None = parent
   \<and> ((\<forall>(ck, v) \<in> set other. v = Undefined)
        \<longrightarrow> mergeEnvironments H parent (Some other) = parent)
   \<and> ((\<forall>(ck, v) \<in> set other.
          (if isWindows H then toLowerCase H ck = toLowerCase H K else ck = K) \<longrightarrow> v = Undefined)
        \<longrightarrow> map_of (mergeEnvironments H parent (Some other)) K = map_of parent K)"
proof -
  have none: "mergeEnvironments H parent None = parent"
    by (simp add: mergeEnvironments_def)
  have all_undef: "mergeEnvironments H parent (Some other) = parent"
    if "\<forall>(ck, v) \<in> set other. v = Undefined"
  proof -
    have "\<forall>(ck, v) \<in> set other. True \<longrightarrow> v = Undefined"
      using that by simp
    then have "obj_get other ck = Undefined" for ck
      by (rule obj_get_Undefined_if [where P = "\<lambda>_. True"]) simp
    then show ?thesis
      by (simp add: mergeEnvironments_fold fold_merge_step_all_undefined)
  qed
  have frame: "map_of (mergeEnvironments H parent (Some other)) K = map_of parent K"
    if h: "\<forall>(ck, v) \<in> set other.
          (if isWindows H then toLowerCase H ck = toLowerCase H K else ck = K) \<longrightarrow> v = Undefined"
  proof -
    have "obj_get other ck = Undefined"
      if "if isWindows H then toLowerCase H ck = toLowerCase H K else ck = K" for ck
      using h that
      by (rule obj_get_Undefined_if
            [where P = "\<lambda>ck. if isWindows H then toLowerCase H ck = toLowerCase H K else ck = K"])
    then show ?thesis
      by (simp add: mergeEnvironments_fold fold_merge_step_frame)
  qed
  show ?thesis
    using none all_undef frame by blast
qed

theorem mergeEnvironments_undefined_and_unmatched_untouched_witness:
  "toLowerCase (example_host True) ''PATH'' = toLowerCase (example_host True) ''Path''
   \<and> toLowerCase (example_host True) ''Term'' \<noteq> toLowerCase (example_host True) ''Path''
   \<and> toLowerCase (example_host True) ''home'' \<noteq> toLowerCase (example_host True) ''Path''
   \<and> mergeEnvironments (example_host True) [(''Path'', Str ''old''), (''HOME'', Str ''h'')]
      (Some [(''PATH'', Undefined), (''Term'', Str ''x''), (''home'', Null)])
     = [(''Path'', Str ''old''), (''Term'', Str ''x'')]
   \<and> map_of (mergeEnvironments (example_host True) [(''Path'', Str ''old''), (''HOME'', Str ''h'')]
        (Some [(''PATH'', Undefined), (''Term'', Str ''x''), (''home'', Null)])) ''Path''
     = Some (Str ''old'')"
  using mergeEnvironments_undefined_and_unmatched_untouched
    [where H = "example_host True" and parent = "[(''Path'', Str ''old''), (''HOME'', Str ''h'')]"
       and other = "[(''PATH'', Undefined), (''Term'', Str ''x''), (''home'', Null)]"
       and K = "''Path''"]
  by (simp add: mergeEnvironments_def example_host_def ascii_lower_def obj_keys_def obj_get_def
        actualKey_def obj_set_def obj_delete_def)

section \<open>Finding an executable: properties\<close>

lemma probe_paths_find:
  "probe_paths H ex cwd command ps =
     List.find ex (concat (map (entry_candidates H cwd command) ps))"
  by (induction ps) (simp_all add: entry_candidates_def Let_def)

lemma find_append:
  "List.find P (xs @ ys) = (case List.find P xs of Some x \<Rightarrow> Some x | None \<Rightarrow> List.find P ys)"
  by (induction xs) simp_all

lemma findExecutable_find:
  "findExecutable H command cwd paths env ex =
     List.find (case ex of None \<Rightarrow> pfs_exists H | Some f \<Rightarrow> f)
       (candidates H command (case cwd of None \<Rightarrow> process_cwd H | Some c \<Rightarrow> c) paths
          (case env of None \<Rightarrow> process_env H | Some e \<Rightarrow> e))"
  by (cases paths; cases "getCaseInsensitive H (case env of None \<Rightarrow> process_env H | Some e \<Rightarrow> e) ''PATH''")
     (auto simp: findExecutable_def candidates_def search_list_def Let_def probe_paths_find find_append
        split: option.splits)

text \<open>
  C1.  \<open>findExecutable\<close> returns the first candidate of the documented probe order that the
  existence predicate accepts, and nothing when it accepts none; so a returned path is a
  candidate that was confirmed to exist.  For an absolute command the only candidate is the
  command itself.
\<close>
theorem findExecutable_first_existing_candidate:
  assumes "ex' = (case ex of None \<Rightarrow> pfs_exists H | Some f \<Rightarrow> f)"
    and "cwd' = (case cwd of None \<Rightarrow> process_cwd H | Some c \<Rightarrow> c)"
    and "env' = (case env of None \<Rightarrow> process_env H | Some e \<Rightarrow> e)"
  shows "findExecutable H command cwd paths env ex
           = List.find ex' (candidates H command cwd' paths env')
         \<and> (\<forall>p. findExecutable H command cwd paths env ex = Some p
                \<longrightarrow> ex' p \<and> p \<in> set (candidates H command cwd' paths env'))
         \<and> (findExecutable H command cwd paths env ex = None
                \<longleftrightarrow> (\<forall>p \<in> set (candidates H command cwd' paths env'). \<not> ex' p))
         \<and> (isAbsolute H command
                \<longrightarrow> findExecutable H command cwd paths env ex
                      = (if ex' command then Some command else None))"
proof -
  have eq: "findExecutable H command cwd paths env ex
              = List.find ex' (candidates H command cwd' paths env')"
    unfolding assms by (rule findExecutable_find)
  have abs: "isAbsolute H command \<longrightarrow> candidates H command cwd' paths env' = [command]"
    by (simp add: candidates_def)
  show ?thesis
    unfolding eq using abs by (auto simp: find_Some_iff find_None_iff)
qed

theorem findExecutable_first_existing_candidate_witness:
  "candidates (example_host True) ''cmd'' ''/cwd'' (Some [''/a'', ''b'']) []
     = [''/a/cmd'', ''/a/cmd.com'', ''/a/cmd.exe'',
        ''/cwd/b/cmd'', ''/cwd/b/cmd.com'', ''/cwd/b/cmd.exe'', ''/cwd/cmd'']
   \<and> findExecutable (example_host True) ''cmd'' (Some ''/cwd'') (Some [''/a'', ''b'']) None
        (Some (\<lambda>p. p = ''/cwd/b/cmd.exe'' \<or> p = ''/cwd/cmd'')) = Some ''/cwd/b/cmd.exe''"
  using findExecutable_first_existing_candidate
    [where H = "example_host True" and command = "''cmd''" and cwd = "Some ''/cwd''"
       and paths = "Some [''/a'', ''b'']" and env = None
       and ex = "Some (\<lambda>p. p = ''/cwd/b/cmd.exe'' \<or> p = ''/cwd/cmd'')"
       and ex' = "\<lambda>p. p = ''/cwd/b/cmd.exe'' \<or> p = ''/cwd/cmd''"
       and cwd' = "''/cwd''" and env' = "[]"]
  by (simp add: candidates_def entry_candidates_def search_list_def example_host_def)

section \<open>Strict environments\<close>



lemma obj_get_distinct:
  "distinct (obj_keys ob) \<Longrightarrow> (k, v) \<in> set ob \<Longrightarrow> obj_get ob k = v"
  by (simp add: obj_get_def obj_keys_def)






section \<open>Only strings are stored\<close>

lemma only_strings_Nil: "only_strings []"
  by (simp add: only_strings_def)

lemma set_update: "set (AList.update k v ob) \<subseteq> insert (k, v) (set ob)"
  by (induction ob) auto

lemma set_obj_set: "set (obj_set ob k v) \<subseteq> insert (k, v) (set ob)"
  using set_update [of k v ob] by (auto simp: obj_set_def)

lemma set_obj_delete: "set (obj_delete ob k) \<subseteq> set ob"
  unfolding obj_delete_def by (induction ob) auto

lemma only_strings_obj_set:
  "only_strings ob \<Longrightarrow> isString v \<Longrightarrow> only_strings (obj_set ob k v)"
  using set_obj_set [of ob k v] by (auto simp: only_strings_def)

lemma only_strings_obj_delete: "only_strings ob \<Longrightarrow> only_strings (obj_delete ob k)"
  using set_obj_delete [of ob k] by (auto simp: only_strings_def)

lemma truthy_isString: "truthy v \<Longrightarrow> isString v"
  by (cases v) simp_all

lemma only_strings_mergeNonNullKeys:
  "only_strings env \<Longrightarrow> only_strings (mergeNonNullKeys env other)"
proof (cases other)
  case None
  then show "only_strings env \<Longrightarrow> ?thesis" by (simp add: mergeNonNullKeys_def)
next
  case (Some ob)
  have "only_strings acc \<Longrightarrow>
        only_strings (fold (\<lambda>key env. (let v = obj_get ob key
                                       in if truthy v then obj_set env key v else env)) ks acc)"
    for ks acc
    by (induction ks arbitrary: acc) (simp_all add: Let_def only_strings_obj_set truthy_isString)
  with Some show "only_strings env \<Longrightarrow> ?thesis" by (simp add: mergeNonNullKeys_def)
qed

lemma only_strings_mergeEnvironmentValue:
  "only_strings env \<Longrightarrow> only_strings (mergeEnvironmentValue env key v)"
  by (cases v) (simp_all add: only_strings_obj_set only_strings_obj_delete)

lemma only_strings_mergeEnvironments:
  "only_strings env \<Longrightarrow> only_strings (mergeEnvironments H env other)"
proof (cases other)
  case None
  then show "only_strings env \<Longrightarrow> ?thesis" by (simp add: mergeEnvironments_def)
next
  case (Some ob)
  have "only_strings acc \<Longrightarrow> only_strings (fold (merge_step H ob) ks acc)" for ks acc
    by (induction ks arbitrary: acc)
       (simp_all add: merge_step_def Let_def only_strings_mergeEnvironmentValue)
  with Some show "only_strings env \<Longrightarrow> ?thesis" by (simp add: mergeEnvironments_fold)
qed

lemma only_strings_sanitizeProcessEnvironment:
  "only_strings env \<Longrightarrow> only_strings (sanitizeProcessEnvironment H env names)"
  by (auto simp: only_strings_def sanitizeProcessEnvironment_def)

lemma only_strings_addTerminalEnvironmentKeys:
  "only_strings env \<Longrightarrow> only_strings (addTerminalEnvironmentKeys H env version locale detectLocale)"
  by (simp add: addTerminalEnvironmentKeys_def Let_def only_strings_obj_set)

text \<open>
  C9.  Every value of the environment \<open>createTerminalEnvironment\<close> returns is a string, in
  strict and in non-strict mode, for every store: no entry holds \<^verbatim>\<open>null\<close> or \<^verbatim>\<open>undefined\<close>.
\<close>
theorem createTerminalEnvironment_only_strings:
  "only_strings
     (fst (createTerminalEnvironment H slc envFromConfig variableResolver version detectLocale
             baseEnv h))
   \<and> (\<forall>k. obj_get (fst (createTerminalEnvironment H slc envFromConfig variableResolver version
                          detectLocale baseEnv h)) k \<noteq> Null)"
proof -
  let ?env = "fst (createTerminalEnvironment H slc envFromConfig variableResolver version
                     detectLocale baseEnv h)"
  have strings: "only_strings ?env"
    by (simp add: createTerminalEnvironment_def Let_def only_strings_Nil
          only_strings_mergeNonNullKeys only_strings_mergeEnvironments
          only_strings_sanitizeProcessEnvironment only_strings_addTerminalEnvironmentKeys)
  have "obj_get ?env k \<noteq> Null" for k
  proof (cases "map_of ?env k")
    case None
    then show ?thesis by (simp add: obj_get_def)
  next
    case (Some v)
    then have "(k, v) \<in> set ?env" by (rule map_of_SomeD)
    with strings have "isString v" by (auto simp: only_strings_def)
    with Some show ?thesis by (auto simp: obj_get_def)
  qed
  with strings show ?thesis by simp
qed

section \<open>Resolving variables in the overlays\<close>

lemma obj_get_middle:
  assumes "distinct (obj_keys (pre @ (k, v) # rest))"
  shows "obj_get (pre @ (k, v) # rest) k = v"
  using assms by (intro obj_get_distinct) simp_all

lemma obj_set_middle:
  assumes "distinct (obj_keys (pre @ (k, v) # rest))"
  shows "obj_set (pre @ (k, v) # rest) k v' = pre @ (k, v') # rest"
proof -
  have "AList.update k v' (pre @ (k, v) # rest) = pre @ (k, v') # rest"
    using assms unfolding obj_keys_def by (induction pre) (auto simp: image_iff)
  then show ?thesis
    by (simp add: obj_set_def obj_keys_def)
qed

lemma resolve_fold:
  assumes "distinct (obj_keys (pre @ rest))"
  shows "fold (\<lambda>key env.
                 (case obj_get env key of
                    Str s \<Rightarrow>
                      (case r s of
                         Inr t \<Rightarrow> obj_set env key (Str t)
                       | Inl e \<Rightarrow> obj_set env key (Str s))
                  | Null \<Rightarrow> env
                  | Undefined \<Rightarrow> env))
           (obj_keys rest) (pre @ rest)
         = pre @ map (\<lambda>(k, v). (k, resolved_value r v)) rest"
  using assms
proof (induction rest arbitrary: pre)
  case Nil
  then show ?case by (simp add: obj_keys_def)
next
  case (Cons kv rest)
  obtain k v where kv: "kv = (k, v)" by (cases kv)
  let ?f = "\<lambda>key env.
                 (case obj_get env key of
                    Str s \<Rightarrow>
                      (case r s of
                         Inr t \<Rightarrow> obj_set env key (Str t)
                       | Inl e \<Rightarrow> obj_set env key (Str s))
                  | Null \<Rightarrow> env
                  | Undefined \<Rightarrow> env)"
  have dist: "distinct (obj_keys (pre @ (k, v) # rest))"
    using Cons.prems kv by simp
  have step: "?f k (pre @ (k, v) # rest) = (pre @ [(k, resolved_value r v)]) @ rest"
    using obj_get_middle [OF dist] obj_set_middle [OF dist]
    by (cases v) (simp_all add: resolved_value_def split: sum.splits)
  have dist': "distinct (obj_keys ((pre @ [(k, resolved_value r v)]) @ rest))"
    using dist by (simp add: obj_keys_def)
  have "fold ?f (obj_keys (kv # rest)) (pre @ kv # rest)
          = fold ?f (obj_keys rest) ((pre @ [(k, resolved_value r v)]) @ rest)"
    unfolding kv using step by (simp add: obj_keys_def)
  also have "\<dots> = (pre @ [(k, resolved_value r v)]) @ map (\<lambda>(k, v). (k, resolved_value r v)) rest"
    using dist' by (rule Cons.IH)
  finally show ?case by (simp add: kv)
qed

lemma resolveConfigurationVariables_map:
  assumes "distinct (obj_keys ob)"
  shows "resolveConfigurationVariables r ob = map (\<lambda>(k, v). (k, resolved_value r v)) ob"
  using resolve_fold [of "[]" ob r] assms
  by (simp add: resolveConfigurationVariables_def)

text \<open>
  C5, as the code has it.  In non-strict mode with a resolver, the launch config's overlay
  is resolved in place, value by value (a string becomes its resolution or stays when the
  resolver throws, other values pass through).  Every other object of the store is left as
  it was: so is the caller's configured overlay, unless it is the very object that is also
  the launch config's overlay.  The configured overlay is resolved in a copy, and the
  environment is built from that copy and the resolved launch overlay.
\<close>
theorem createTerminalEnvironment_resolves_copy_and_launch_env:
  assumes "\<not> slc_strictEnv slc"
    and "variableResolver = Some r"
    and "createTerminalEnvironment H slc envFromConfig variableResolver version detectLocale
           baseEnv h = (env', h')"
    and "config = (case envFromConfig of None \<Rightarrow> [] | Some c \<Rightarrow> h ! c)"
    and "distinct (obj_keys config)"
  shows "length h' = length h
         \<and> (\<forall>a < length h. slc_env slc \<noteq> Some a \<longrightarrow> h' ! a = h ! a)
         \<and> (\<forall>c < length h. envFromConfig = Some c \<and> slc_env slc \<noteq> Some c \<longrightarrow> h' ! c = h ! c)
         \<and> (\<forall>e < length h. slc_env slc = Some e \<and> distinct (obj_keys (h ! e)) \<longrightarrow>
                h' ! e = map (\<lambda>(k, v). (k, resolved_value r v)) (h ! e))
         \<and> env' =
             addTerminalEnvironmentKeys H
               (mergeEnvironments H
                  (mergeEnvironments H
                     (sanitizeProcessEnvironment H (mergeNonNullKeys [] (Some (h ! baseEnv)))
                        [''VSCODE_IPC_HOOK_CLI''])
                     (Some (map (\<lambda>(k, v). (k, resolved_value r v)) config)))
                  (map_option (\<lambda>a. h' ! a) (slc_env slc)))
               version (platform_locale H) detectLocale"
proof -
  have h': "h' = (case slc_env slc of
                    None \<Rightarrow> h
                  | Some a \<Rightarrow> h[a := resolveConfigurationVariables r (h ! a)])"
    using assms(1-3) by (auto simp: createTerminalEnvironment_def Let_def)
  have len: "length h' = length h"
    unfolding h' by (simp split: option.splits)
  have frame: "\<forall>a < length h. slc_env slc \<noteq> Some a \<longrightarrow> h' ! a = h ! a"
    unfolding h' by (auto split: option.splits)
  have launch: "\<forall>e < length h. slc_env slc = Some e \<and> distinct (obj_keys (h ! e)) \<longrightarrow>
                h' ! e = map (\<lambda>(k, v). (k, resolved_value r v)) (h ! e)"
    unfolding h' by (auto simp: resolveConfigurationVariables_map)
  have copy: "resolveConfigurationVariables r config
                = map (\<lambda>(k, v). (k, resolved_value r v)) config"
    using assms(5) by (rule resolveConfigurationVariables_map)
  have env': "env' =
             addTerminalEnvironmentKeys H
               (mergeEnvironments H
                  (mergeEnvironments H
                     (sanitizeProcessEnvironment H (mergeNonNullKeys [] (Some (h ! baseEnv)))
                        [''VSCODE_IPC_HOOK_CLI''])
                     (Some (resolveConfigurationVariables r config)))
                  (map_option (\<lambda>a. h' ! a) (slc_env slc)))
               version (platform_locale H) detectLocale"
    using assms(1-3) unfolding assms(4) h'
    by (auto simp: createTerminalEnvironment_def Let_def split: option.splits)
  have config_kept:
    "\<forall>c < length h. envFromConfig = Some c \<and> slc_env slc \<noteq> Some c \<longrightarrow> h' ! c = h ! c"
    using frame by blast
  show ?thesis
    using len frame config_kept launch env' unfolding copy by blast
qed

section \<open>A worked example of the environment\<close>

lemmas example_defs =
  example_host_def example_resolver_def example_launch_def example_heap_def
  createTerminalEnvironment_def mergeNonNullKeys_def mergeEnvironments_def
  resolveConfigurationVariables_def sanitizeProcessEnvironment_def
  addTerminalEnvironmentKeys_def shouldSetLangEnvVariable_def getLangEnvVariable_def
  obj_keys_def obj_get_def obj_set_def obj_delete_def actualKey_def Let_def

lemma example_run:
  "createTerminalEnvironment (example_host False) example_launch (Some 1) (Some example_resolver)
     (Some ''1.0'') Off 2 example_heap
   = ([(''HOME'', Str ''/root''), (''C'', Str ''c!''), (''A'', Str ''a!''),
       (''D'', Str ''${bad}''), (''TERM_PROGRAM'', Str ''vscode''),
       (''TERM_PROGRAM_VERSION'', Str ''1.0''), (''COLORTERM'', Str ''truecolor'')],
      [[(''A'', Str ''a!''), (''B'', Null), (''D'', Str ''${bad}'')],
       [(''C'', Str ''c'')],
       [(''HOME'', Str ''/root''), (''B'', Str ''b''), (''E'', Str '''')]])"
  by (simp add: example_defs)

text \<open>
  C5 as the specification words it (the configured overlay is mutated in place) fails: after
  the call the caller's configured overlay still holds the unresolved value, while the
  environment holds the resolved one.
\<close>
theorem createTerminalEnvironment_mutates_config_counterexample:
  "snd (createTerminalEnvironment (example_host False) example_launch (Some 1)
          (Some example_resolver) (Some ''1.0'') Off 2 example_heap) ! 1
     = [(''C'', Str ''c'')]
   \<and> example_heap ! 1 = [(''C'', Str ''c'')]
   \<and> map (\<lambda>(k, v). (k, resolved_value example_resolver v)) (example_heap ! 1)
     = [(''C'', Str ''c!'')]
   \<and> snd (createTerminalEnvironment (example_host False) example_launch (Some 1)
          (Some example_resolver) (Some ''1.0'') Off 2 example_heap) ! 1
     \<noteq> map (\<lambda>(k, v). (k, resolved_value example_resolver v)) (example_heap ! 1)
   \<and> obj_get (fst (createTerminalEnvironment (example_host False) example_launch (Some 1)
          (Some example_resolver) (Some ''1.0'') Off 2 example_heap)) ''C''
     = Str ''c!''"
  unfolding example_run
  by (simp add: example_heap_def resolved_value_def example_resolver_def obj_get_def)

theorem createTerminalEnvironment_resolves_copy_and_launch_env_witness:
  "\<not> slc_strictEnv example_launch
   \<and> distinct (obj_keys (example_heap ! 1))
   \<and> distinct (obj_keys (example_heap ! 0))
   \<and> snd (createTerminalEnvironment (example_host False) example_launch (Some 1)
          (Some example_resolver) (Some ''1.0'') Off 2 example_heap) ! 0
     = [(''A'', Str ''a!''), (''B'', Null), (''D'', Str ''${bad}'')]
   \<and> snd (createTerminalEnvironment (example_host False) example_launch (Some 1)
          (Some example_resolver) (Some ''1.0'') Off 2 example_heap) ! 1
     = example_heap ! 1
   \<and> snd (createTerminalEnvironment (example_host False) example_launch (Some 0)
          (Some example_resolver) (Some ''1.0'') Off 2 example_heap) ! 0
     = [(''A'', Str ''a!''), (''B'', Null), (''D'', Str ''${bad}'')]"
proof -
  obtain env2 h2 where run2:
    "createTerminalEnvironment (example_host False) example_launch (Some 0)
       (Some example_resolver) (Some ''1.0'') Off 2 example_heap = (env2, h2)"
    by (cases "createTerminalEnvironment (example_host False) example_launch (Some 0)
                 (Some example_resolver) (Some ''1.0'') Off 2 example_heap")
  show ?thesis
    using createTerminalEnvironment_resolves_copy_and_launch_env
      [where H = "example_host False" and slc = example_launch and envFromConfig = "Some 1"
         and variableResolver = "Some example_resolver" and r = example_resolver
         and version = "Some ''1.0''" and detectLocale = Off and baseEnv = 2 and h = example_heap
         and config = "[(''C'', Str ''c'')]",
       OF _ _ example_run]
      createTerminalEnvironment_resolves_copy_and_launch_env
      [where H = "example_host False" and slc = example_launch and envFromConfig = "Some 0"
         and variableResolver = "Some example_resolver" and r = example_resolver
         and version = "Some ''1.0''" and detectLocale = Off and baseEnv = 2 and h = example_heap
         and config = "[(''A'', Str ''a''), (''B'', Null), (''D'', Str ''${bad}'')]",
       OF _ _ run2]
    unfolding example_run run2
    by (simp add: example_launch_def example_heap_def obj_keys_def resolved_value_def
          example_resolver_def)
qed

theorem createTerminalEnvironment_only_strings_witness:
  "only_strings
     [(''HOME'', Str ''/root''), (''C'', Str ''c!''), (''A'', Str ''a!''),
       (''D'', Str ''${bad}''), (''TERM_PROGRAM'', Str ''vscode''),
       (''TERM_PROGRAM_VERSION'', Str ''1.0''), (''COLORTERM'', Str ''truecolor'')]
   \<and> only_strings
        (fst (createTerminalEnvironment (example_host False)
                (example_launch\<lparr>slc_strictEnv := True\<rparr>) (Some 1) (Some example_resolver)
                (Some ''1.0'') Off 2 example_heap))"
  using createTerminalEnvironment_only_strings
    [where H = "example_host False" and slc = example_launch and envFromConfig = "Some 1"
       and variableResolver = "Some example_resolver"
       and version = "Some ''1.0''" and detectLocale = Off and baseEnv = 2 and h = example_heap]
    createTerminalEnvironment_only_strings
    [where H = "example_host False" and slc = "example_launch\<lparr>slc_strictEnv := True\<rparr>"
       and envFromConfig = "Some 1"
       and variableResolver = "Some example_resolver"
       and version = "Some ''1.0''" and detectLocale = Off and baseEnv = 2 and h = example_heap]
  unfolding example_run by simp



section \<open>Working directory: properties\<close>

lemma getCwd_no_explicit:
  assumes "\<not> cwd_truthy (slc_cwd shell)"
  shows "fst (getCwd H shell userHome variableResolver root customCwd logService) =
           sanitizeCwd H
             (let c = configured_cwd shell variableResolver customCwd;
                  cwd = (if truthy_str c
                         then (if isAbsolute H (the c) then c
                               else (case root of
                                       Some r \<Rightarrow> Some (join H [fsPath r, the c])
                                     | None \<Rightarrow> None))
                         else None)
              in if truthy_str cwd then the cwd else fallback_cwd root userHome)"
  using assms
  by (cases variableResolver; cases root)
     (auto simp: getCwd_def resolveCwd_def configured_cwd_def fallback_cwd_def Let_def
           split: sum.splits option.splits prod.splits)

text \<open>
  C6.  Without an explicit cwd on the launch config, \<open>getCwd\<close> takes the configured cwd
  that applies (\<open>configured_cwd\<close>): used as it is when absolute, joined to the workspace
  root when relative and a root is known (\<^verbatim>\<open>path.join\<close> never gives the empty string);
  when none applies the result is the root path, else the user home, else the empty string.
  Every result is a sanitized string; on Windows sanitizing puts the first character of a
  string whose second character is \<^verbatim>\<open>:\<close> in upper case, and it changes nothing else.
\<close>
theorem getCwd_without_explicit_cwd:
  assumes "c = configured_cwd shell variableResolver customCwd"
    and "result = fst (getCwd H shell userHome variableResolver root customCwd logService)"
    and "explicit = cwd_truthy (slc_cwd shell)"
  shows "(\<not> explicit \<and> truthy_str c \<and> isAbsolute H (the c) \<longrightarrow> result = sanitizeCwd H (the c))
         \<and> (\<forall>r. \<not> explicit \<and> truthy_str c \<and> \<not> isAbsolute H (the c) \<and> root = Some r
                  \<and> join H [fsPath r, the c] \<noteq> []
                \<longrightarrow> result = sanitizeCwd H (join H [fsPath r, the c]))
         \<and> (\<not> explicit \<and> (\<not> truthy_str c \<or> (\<not> isAbsolute H (the c) \<and> root = None))
                \<longrightarrow> result = sanitizeCwd H (fallback_cwd root userHome))
         \<and> (\<forall>r. root = Some r \<longrightarrow> fallback_cwd root userHome = fsPath r)
         \<and> (root = None \<and> truthy_str userHome \<longrightarrow> fallback_cwd root userHome = the userHome)
         \<and> (root = None \<and> \<not> truthy_str userHome \<longrightarrow> fallback_cwd root userHome = [])
         \<and> (\<exists>x. result = sanitizeCwd H x)
         \<and> (\<forall>a t. OS H = Windows \<longrightarrow>
                sanitizeCwd H (a # CHR '':'' # t) = toUpperCase H [a] @ CHR '':'' # t)
         \<and> (\<forall>s. \<not> (OS H = Windows \<and> (\<exists>a t. s = a # CHR '':'' # t)) \<longrightarrow> sanitizeCwd H s = s)"
proof -
  have res: "result =
           sanitizeCwd H
             (let cwd = (if truthy_str c
                         then (if isAbsolute H (the c) then c
                               else (case root of
                                       Some r \<Rightarrow> Some (join H [fsPath r, the c])
                                     | None \<Rightarrow> None))
                         else None)
              in if truthy_str cwd then the cwd else fallback_cwd root userHome)"
    if "\<not> explicit"
    unfolding assms(1,2) using getCwd_no_explicit [of shell] that
    by (simp add: assms(3) Let_def)
  have abs: "\<not> explicit \<and> truthy_str c \<and> isAbsolute H (the c) \<longrightarrow> result = sanitizeCwd H (the c)"
    using res by (cases c) auto
  have rel: "\<forall>r. \<not> explicit \<and> truthy_str c \<and> \<not> isAbsolute H (the c) \<and> root = Some r
                  \<and> join H [fsPath r, the c] \<noteq> []
                \<longrightarrow> result = sanitizeCwd H (join H [fsPath r, the c])"
    using res by auto
  have fall: "\<not> explicit \<and> (\<not> truthy_str c \<or> (\<not> isAbsolute H (the c) \<and> root = None))
                \<longrightarrow> result = sanitizeCwd H (fallback_cwd root userHome)"
    using res by auto
  have fb: "(\<forall>r. root = Some r \<longrightarrow> fallback_cwd root userHome = fsPath r)
         \<and> (root = None \<and> truthy_str userHome \<longrightarrow> fallback_cwd root userHome = the userHome)
         \<and> (root = None \<and> \<not> truthy_str userHome \<longrightarrow> fallback_cwd root userHome = [])"
    by (auto simp: fallback_cwd_def)
  have sanitized: "\<exists>x. result = sanitizeCwd H x"
  proof (cases explicit)
    case True
    then show ?thesis
      unfolding assms(2) using assms(3) by (auto simp: getCwd_def Let_def)
  next
    case False
    then show ?thesis using res by blast
  qed
  have san1: "\<forall>a t. OS H = Windows \<longrightarrow>
                sanitizeCwd H (a # CHR '':'' # t) = toUpperCase H [a] @ CHR '':'' # t"
    by (simp add: sanitizeCwd_def)
  have san2: "\<forall>s. \<not> (OS H = Windows \<and> (\<exists>a t. s = a # CHR '':'' # t)) \<longrightarrow> sanitizeCwd H s = s"
  proof (intro allI impI)
    fix s assume h: "\<not> (OS H = Windows \<and> (\<exists>a t. s = a # CHR '':'' # t))"
    show "sanitizeCwd H s = s"
    proof (cases s)
      case Nil
      then show ?thesis by (simp add: sanitizeCwd_def)
    next
      case (Cons a t)
      with h show ?thesis by (cases t) (auto simp: sanitizeCwd_def)
    qed
  qed
  show ?thesis
    using abs rel fall fb sanitized san1 san2 by blast
qed

text \<open>
  C7.  A resolver that throws does not make \<open>getCwd\<close> fail.  With an explicit cwd the
  unresolved string is sanitized and returned, and nothing is logged; with only a configured
  cwd the failure goes to the log service (when one was passed) and the result is the
  fallback: root path, else user home, else the empty string.
\<close>
theorem getCwd_resolver_failure_is_caught:
  assumes "variableResolver = Some r"
  shows "(cwd_truthy (slc_cwd shell) \<and> r (cwd_string (slc_cwd shell)) = Inl e \<longrightarrow>
            getCwd H shell userHome variableResolver root customCwd logService
              = (sanitizeCwd H (cwd_string (slc_cwd shell)), logService))
         \<and> (\<not> cwd_truthy (slc_cwd shell) \<and> \<not> slc_ignoreConfigurationCwd shell
              \<and> truthy_str customCwd \<and> r (the customCwd) = Inl e \<longrightarrow>
            getCwd H shell userHome variableResolver root customCwd logService
              = (sanitizeCwd H (fallback_cwd root userHome),
                 map_option (\<lambda>l. l @ [(''Could not resolve terminal cwd'', e)]) logService))"
  using assms
  by (auto simp: getCwd_def resolveCwd_def fallback_cwd_def Let_def split: option.splits)

theorem getCwd_resolver_failure_is_caught_witness:
  "getCwd (example_host False) (example_shell (Some (CwdStr ''/tmp/x''))) None
      (Some (\<lambda>s. Inl (Thrown ''boom''))) None None (Some [])
     = (''/tmp/x'', Some [])
   \<and> getCwd (example_host False) (example_shell None) (Some ''/home/u'')
      (Some (\<lambda>s. Inl (Thrown ''boom''))) None (Some ''${workspaceFolder}'') (Some [])
     = (''/home/u'', Some [(''Could not resolve terminal cwd'', Thrown ''boom'')])"
  using getCwd_resolver_failure_is_caught
    [where variableResolver = "Some (\<lambda>s. Inl (Thrown ''boom''))"
       and r = "\<lambda>s. Inl (Thrown ''boom'')" and e = "Thrown ''boom''"
       and H = "example_host False" and shell = "example_shell (Some (CwdStr ''/tmp/x''))"
       and userHome = None and root = None and customCwd = None and logService = "Some []"]
    getCwd_resolver_failure_is_caught
    [where variableResolver = "Some (\<lambda>s. Inl (Thrown ''boom''))"
       and r = "\<lambda>s. Inl (Thrown ''boom'')" and e = "Thrown ''boom''"
       and H = "example_host False" and shell = "example_shell None"
       and userHome = "Some ''/home/u''" and root = None
       and customCwd = "Some ''${workspaceFolder}''" and logService = "Some []"]
  by (simp add: example_shell_def example_host_def sanitizeCwd_def fallback_cwd_def)

theorem getCwd_without_explicit_cwd_witness:
  "\<not> cwd_truthy (slc_cwd (example_shell None))
   \<and> configured_cwd (example_shell None) None (Some ''proj'') = Some ''proj''
   \<and> \<not> isAbsolute (example_host True) ''proj''
   \<and> fst (getCwd (example_host True) (example_shell None) (Some ''/home/u'') None
            (Some \<lparr>fsPath = ''c:/ws''\<rparr>) (Some ''proj'') None)
     = ''C:/ws/proj''
   \<and> isAbsolute (example_host True) ''/abs''
   \<and> fst (getCwd (example_host True) (example_shell None) (Some ''/home/u'') None
            (Some \<lparr>fsPath = ''c:/ws''\<rparr>) (Some ''/abs'') None)
     = ''/abs''
   \<and> fst (getCwd (example_host True) (example_shell None) (Some ''d:/u'') None
            None (Some ''proj'') None)
     = ''D:/u''"
  using getCwd_without_explicit_cwd
    [where H = "example_host True" and shell = "example_shell None" and userHome = "Some ''/home/u''"
       and variableResolver = None and root = "Some \<lparr>fsPath = ''c:/ws''\<rparr>"
       and customCwd = "Some ''proj''" and logService = None and c = "Some ''proj''"
       and explicit = False
       and result = "fst (getCwd (example_host True) (example_shell None) (Some ''/home/u'') None
            (Some \<lparr>fsPath = ''c:/ws''\<rparr>) (Some ''proj'') None)"]
    getCwd_without_explicit_cwd
    [where H = "example_host True" and shell = "example_shell None" and userHome = "Some ''/home/u''"
       and variableResolver = None and root = "Some \<lparr>fsPath = ''c:/ws''\<rparr>"
       and customCwd = "Some ''/abs''" and logService = None and c = "Some ''/abs''"
       and explicit = False
       and result = "fst (getCwd (example_host True) (example_shell None) (Some ''/home/u'') None
            (Some \<lparr>fsPath = ''c:/ws''\<rparr>) (Some ''/abs'') None)"]
    getCwd_without_explicit_cwd
    [where H = "example_host True" and shell = "example_shell None" and userHome = "Some ''d:/u''"
       and variableResolver = None and root = None
       and customCwd = "Some ''proj''" and logService = None and c = "Some ''proj''"
       and explicit = False
       and result = "fst (getCwd (example_host True) (example_shell None) (Some ''d:/u'') None
            None (Some ''proj'') None)"]
  by (simp add: example_shell_def example_host_def configured_cwd_def sanitizeCwd_def
        fallback_cwd_def ascii_upper_def)

end
